theory Spec2Isabelle
  imports Complex_Main
begin

section \<open>float64 values\<close>

text \<open>
  The filter computes on Go \<^verbatim>\<open>float64\<close> values. A value is modelled as a finite real
  or one of the three kinds of non-finite value of IEEE 754, so that a division by zero
  and an invalid operation are branches of the model and not the arbitrary totalisation
  of HOL (where \<open>1 / 0 = 0\<close> on the reals).

  Finite arithmetic is exact: rounding, overflow to an infinity, underflow and the sign
  of zero are not modelled. The statements below are those that do not rest on this:
  which fields a call writes, which branch it takes, how the methods are composed, and
  where a NaN arises and spreads. A property that holds of the code only up to rounding,
  or only while no intermediate result overflows or underflows (the unit norm of
  claim C2, the fixed point of claim C5), cannot be stated in this arithmetic and is
  not stated here.
\<close>

datatype f64 = Fin real | PInf | NInf | NaN

text \<open>The infinity with the sign of a finite factor; \<open>0 \<times> \<infinity>\<close> is invalid.\<close>

definition signed_inf :: "real \<Rightarrow> f64" where
  "signed_inf s = (if s = 0 then NaN else if 0 < s then PInf else NInf)"

instantiation f64 :: "{plus, minus, uminus, times, inverse, ord}"
begin

fun uminus_f64 :: "f64 \<Rightarrow> f64" where
  "uminus_f64 (Fin a) = Fin (- a)"
| "uminus_f64 PInf = NInf"
| "uminus_f64 NInf = PInf"
| "uminus_f64 NaN = NaN"

fun plus_f64 :: "f64 \<Rightarrow> f64 \<Rightarrow> f64" where
  "plus_f64 (Fin a) (Fin b) = Fin (a + b)"
| "plus_f64 NaN _ = NaN"
| "plus_f64 _ NaN = NaN"
| "plus_f64 PInf NInf = NaN"
| "plus_f64 NInf PInf = NaN"
| "plus_f64 PInf _ = PInf"
| "plus_f64 _ PInf = PInf"
| "plus_f64 NInf _ = NInf"
| "plus_f64 _ NInf = NInf"

definition minus_f64 :: "f64 \<Rightarrow> f64 \<Rightarrow> f64" where
  "minus_f64 a b = (a::f64) + (- b)"

fun times_f64 :: "f64 \<Rightarrow> f64 \<Rightarrow> f64" where
  "times_f64 (Fin a) (Fin b) = Fin (a * b)"
| "times_f64 NaN _ = NaN"
| "times_f64 _ NaN = NaN"
| "times_f64 (Fin a) PInf = signed_inf a"
| "times_f64 PInf (Fin b) = signed_inf b"
| "times_f64 (Fin a) NInf = signed_inf (- a)"
| "times_f64 NInf (Fin b) = signed_inf (- b)"
| "times_f64 PInf PInf = PInf"
| "times_f64 NInf NInf = PInf"
| "times_f64 PInf NInf = NInf"
| "times_f64 NInf PInf = NInf"

fun divide_f64 :: "f64 \<Rightarrow> f64 \<Rightarrow> f64" where
  "divide_f64 (Fin a) (Fin b) = (if b = 0 then signed_inf a else Fin (a / b))"
| "divide_f64 NaN _ = NaN"
| "divide_f64 _ NaN = NaN"
| "divide_f64 (Fin a) PInf = Fin 0"
| "divide_f64 (Fin a) NInf = Fin 0"
| "divide_f64 PInf (Fin b) = (if b < 0 then NInf else PInf)"
| "divide_f64 NInf (Fin b) = (if b < 0 then PInf else NInf)"
| "divide_f64 PInf PInf = NaN"
| "divide_f64 PInf NInf = NaN"
| "divide_f64 NInf PInf = NaN"
| "divide_f64 NInf NInf = NaN"

definition inverse_f64 :: "f64 \<Rightarrow> f64" where
  "inverse_f64 a = divide (Fin 1) (a::f64)"

fun less_f64 :: "f64 \<Rightarrow> f64 \<Rightarrow> bool" where
  "less_f64 (Fin a) (Fin b) = (a < b)"
| "less_f64 NaN _ = False"
| "less_f64 _ NaN = False"
| "less_f64 _ NInf = False"
| "less_f64 PInf _ = False"
| "less_f64 NInf _ = True"
| "less_f64 _ PInf = True"

fun less_eq_f64 :: "f64 \<Rightarrow> f64 \<Rightarrow> bool" where
  "less_eq_f64 (Fin a) (Fin b) = (a \<le> b)"
| "less_eq_f64 NaN _ = False"
| "less_eq_f64 _ NaN = False"
| "less_eq_f64 NInf _ = True"
| "less_eq_f64 _ PInf = True"
| "less_eq_f64 _ NInf = False"
| "less_eq_f64 PInf _ = False"

instance ..

end

text \<open>Go's \<^verbatim>\<open>==\<close> on floats: a NaN is equal to nothing, itself included.\<close>

fun feq :: "f64 \<Rightarrow> f64 \<Rightarrow> bool" where
  "feq NaN _ = False"
| "feq _ NaN = False"
| "feq a b = (a = b)"

text \<open>\<^verbatim>\<open>math.Sqrt\<close>: NaN below zero, and \<open>+\<infinity>\<close> at \<open>+\<infinity>\<close>.\<close>

fun fsqrt :: "f64 \<Rightarrow> f64" where
  "fsqrt (Fin a) = (if a < 0 then NaN else Fin (sqrt a))"
| "fsqrt PInf = PInf"
| "fsqrt NInf = NaN"
| "fsqrt NaN = NaN"

section \<open>The reciprocal square root\<close>

text \<open>\<^verbatim>\<open>func invSqrt(x float64) float64 { return 1 / math.Sqrt(x) }\<close>\<close>

definition invSqrt :: "f64 \<Rightarrow> f64" where
  "invSqrt x = Fin 1 / fsqrt x"

section \<open>The Mahony filter\<close>

text \<open>
  \<^verbatim>\<open>type Mahony struct\<close>. The array \<^verbatim>\<open>Quaternions [4]float64\<close> has a fixed length and is
  read and written at the constant indices 0 to 3 only: it is a 4-tuple, index \<open>i\<close>
  being the component \<open>i + 1\<close>.
\<close>

type_synonym quat = "f64 \<times> f64 \<times> f64 \<times> f64"

record Mahony =
  twoKp :: f64
  twoKi :: f64
  integralFBx :: f64
  integralFBy :: f64
  integralFBz :: f64
  SampleFreq :: f64
  Quaternions :: quat

text \<open>The constructors leave the three accumulator fields at Go's zero value.\<close>

definition NewMahony :: "f64 \<Rightarrow> f64 \<Rightarrow> f64 \<Rightarrow> Mahony" where
  "NewMahony kp ki sampleFreq =
     \<lparr>twoKp = Fin 2 * kp, twoKi = Fin 2 * ki,
      integralFBx = Fin 0, integralFBy = Fin 0, integralFBz = Fin 0,
      SampleFreq = sampleFreq, Quaternions = (Fin 1, Fin 0, Fin 0, Fin 0)\<rparr>"

definition MahonyDefaultKp :: real where
  "MahonyDefaultKp = 0.2"

definition MahonyDefaultKi :: real where
  "MahonyDefaultKi = 0.1"

text \<open>The products \<^verbatim>\<open>2 * MahonyDefaultKp\<close> are constant expressions of Go, evaluated exactly.\<close>

definition NewDefaultMahony :: "f64 \<Rightarrow> Mahony" where
  "NewDefaultMahony sampleFreq =
     \<lparr>twoKp = Fin (2 * MahonyDefaultKp), twoKi = Fin (2 * MahonyDefaultKi),
      integralFBx = Fin 0, integralFBy = Fin 0, integralFBz = Fin 0,
      SampleFreq = sampleFreq, Quaternions = (Fin 1, Fin 0, Fin 0, Fin 0)\<rparr>"

text \<open>
  \<^verbatim>\<open>func (m *Mahony) Update6D(gx, gy, gz, ax, ay, az float64) [4]float64\<close>.
  The method mutates its receiver: the model takes the filter and returns the array the
  method returns together with the filter after the call. Go's reassigned locals are
  numbered (\<open>ax1\<close> is \<open>ax\<close> after \<^verbatim>\<open>ax *= recipNorm\<close>). The locals \<open>ifbx\<close>, \<open>ifby\<close>, \<open>ifbz\<close>
  are the method's \<^verbatim>\<open>integralFBx\<close>, \<^verbatim>\<open>integralFBy\<close>, \<^verbatim>\<open>integralFBz\<close>, copies of the fields;
  the method assigns to the copies and stores the four quaternion components only.
\<close>

definition Update6D ::
  "Mahony \<Rightarrow> f64 \<Rightarrow> f64 \<Rightarrow> f64 \<Rightarrow> f64 \<Rightarrow> f64 \<Rightarrow> f64 \<Rightarrow> quat \<times> Mahony" where
  "Update6D m gx gy gz ax ay az =
    (case Quaternions m of (q0, q1, q2, q3) \<Rightarrow>
     let ifbx = integralFBx m; ifby = integralFBy m; ifbz = integralFBz m;
         ki2 = twoKi m; kp2 = twoKp m; sampleFreq = SampleFreq m;
         (gx2, gy2, gz2, ifbx1, ifby1, ifbz1) =
           (if \<not> (feq ax (Fin 0) \<and> feq ay (Fin 0) \<and> feq az (Fin 0)) then
              let recipNorm = invSqrt (ax * ax + ay * ay + az * az);
                  ax1 = ax * recipNorm; ay1 = ay * recipNorm; az1 = az * recipNorm;
                  halfvx = q1 * q3 - q0 * q2;
                  halfvy = q0 * q1 + q2 * q3;
                  halfvz = q0 * q0 - Fin 0.5 + q3 * q3;
                  halfex = ay1 * halfvz - az1 * halfvy;
                  halfey = az1 * halfvx - ax1 * halfvz;
                  halfez = ax1 * halfvy - ay1 * halfvx;
                  (gx1, gy1, gz1, ifbx1, ifby1, ifbz1) =
                    (if Fin 0 < ki2 then
                       let ifbx1 = ifbx + ki2 * halfex * (Fin 1 / sampleFreq);
                           ifby1 = ifby + ki2 * halfey * (Fin 1 / sampleFreq);
                           ifbz1 = ifbz + ki2 * halfez * (Fin 1 / sampleFreq)
                       in (gx + ifbx1, gy + ifby1, gz + ifbz1, ifbx1, ifby1, ifbz1)
                     else (gx, gy, gz, Fin 0, Fin 0, Fin 0))
              in (gx1 + kp2 * halfex, gy1 + kp2 * halfey, gz1 + kp2 * halfez,
                  ifbx1, ifby1, ifbz1)
            else (gx, gy, gz, ifbx, ifby, ifbz));
         gx3 = gx2 * (Fin 0.5 * (Fin 1 / sampleFreq));
         gy3 = gy2 * (Fin 0.5 * (Fin 1 / sampleFreq));
         gz3 = gz2 * (Fin 0.5 * (Fin 1 / sampleFreq));
         qa = q0; qb = q1; qc = q2;
         q0' = q0 + (- qb * gx3 - qc * gy3 - q3 * gz3);
         q1' = q1 + (qa * gx3 + qc * gz3 - q3 * gy3);
         q2' = q2 + (qa * gy3 - qb * gz3 + q3 * gx3);
         q3' = q3 + (qa * gz3 + qb * gy3 - qc * gx3);
         recipNorm = invSqrt (q0' * q0' + q1' * q1' + q2' * q2' + q3' * q3');
         qs = (q0' * recipNorm, q1' * recipNorm, q2' * recipNorm, q3' * recipNorm)
     in (qs, m\<lparr>Quaternions := qs\<rparr>))"

text \<open>
  \<^verbatim>\<open>func (m *Mahony) Update9D(gx, gy, gz, ax, ay, az, mx, my, mz float64) [4]float64\<close>,
  modelled as \<open>Update6D\<close> is. The test on the accelerometer is the only test before the
  magnetometer is normalised.
\<close>

definition Update9D ::
  "Mahony \<Rightarrow> f64 \<Rightarrow> f64 \<Rightarrow> f64 \<Rightarrow> f64 \<Rightarrow> f64 \<Rightarrow> f64 \<Rightarrow> f64 \<Rightarrow> f64 \<Rightarrow> f64 \<Rightarrow> quat \<times> Mahony" where
  "Update9D m gx gy gz ax ay az mx my mz =
    (case Quaternions m of (q0, q1, q2, q3) \<Rightarrow>
     let ifbx = integralFBx m; ifby = integralFBy m; ifbz = integralFBz m;
         ki2 = twoKi m; kp2 = twoKp m; sampleFreq = SampleFreq m;
         (gx2, gy2, gz2, ifbx1, ifby1, ifbz1) =
           (if \<not> (feq ax (Fin 0) \<and> feq ay (Fin 0) \<and> feq az (Fin 0)) then
              let recipNorm = invSqrt (ax * ax + ay * ay + az * az);
                  ax1 = ax * recipNorm; ay1 = ay * recipNorm; az1 = az * recipNorm;
                  recipNorm1 = invSqrt (mx * mx + my * my + mz * mz);
                  mx1 = mx * recipNorm1; my1 = my * recipNorm1; mz1 = mz * recipNorm1;
                  q0q0 = q0 * q0; q0q1 = q0 * q1; q0q2 = q0 * q2; q0q3 = q0 * q3;
                  q1q1 = q1 * q1; q1q2 = q1 * q2; q1q3 = q1 * q3;
                  q2q2 = q2 * q2; q2q3 = q2 * q3;
                  q3q3 = q3 * q3;
                  hx = Fin 2 * (mx1 * (Fin 0.5 - q2q2 - q3q3) + my1 * (q1q2 - q0q3)
                         + mz1 * (q1q3 + q0q2));
                  hy = Fin 2 * (mx1 * (q1q2 + q0q3) + my1 * (Fin 0.5 - q1q1 - q3q3)
                         + mz1 * (q2q3 - q0q1));
                  bx = fsqrt (hx * hx + hy * hy);
                  bz = Fin 2 * (mx1 * (q1q3 - q0q2) + my1 * (q2q3 + q0q1)
                         + mz1 * (Fin 0.5 - q1q1 - q2q2));
                  halfvx = q1q3 - q0q2;
                  halfvy = q0q1 + q2q3;
                  halfvz = q0q0 - Fin 0.5 + q3q3;
                  halfwx = bx * (Fin 0.5 - q2q2 - q3q3) + bz * (q1q3 - q0q2);
                  halfwy = bx * (q1q2 - q0q3) + bz * (q0q1 + q2q3);
                  halfwz = bx * (q0q2 + q1q3) + bz * (Fin 0.5 - q1q1 - q2q2);
                  halfex = (ay1 * halfvz - az1 * halfvy) + (my1 * halfwz - mz1 * halfwy);
                  halfey = (az1 * halfvx - ax1 * halfvz) + (mz1 * halfwx - mx1 * halfwz);
                  halfez = (ax1 * halfvy - ay1 * halfvx) + (mx1 * halfwy - my1 * halfwx);
                  (gx1, gy1, gz1, ifbx1, ifby1, ifbz1) =
                    (if Fin 0 < ki2 then
                       let ifbx1 = ifbx + ki2 * halfex * (Fin 1 / sampleFreq);
                           ifby1 = ifby + ki2 * halfey * (Fin 1 / sampleFreq);
                           ifbz1 = ifbz + ki2 * halfez * (Fin 1 / sampleFreq)
                       in (gx + ifbx1, gy + ifby1, gz + ifbz1, ifbx1, ifby1, ifbz1)
                     else (gx, gy, gz, Fin 0, Fin 0, Fin 0))
              in (gx1 + kp2 * halfex, gy1 + kp2 * halfey, gz1 + kp2 * halfez,
                  ifbx1, ifby1, ifbz1)
            else (gx, gy, gz, ifbx, ifby, ifbz));
         gx3 = gx2 * (Fin 0.5 * (Fin 1 / sampleFreq));
         gy3 = gy2 * (Fin 0.5 * (Fin 1 / sampleFreq));
         gz3 = gz2 * (Fin 0.5 * (Fin 1 / sampleFreq));
         qa = q0; qb = q1; qc = q2;
         q0' = q0 + (- qb * gx3 - qc * gy3 - q3 * gz3);
         q1' = q1 + (qa * gx3 + qc * gz3 - q3 * gy3);
         q2' = q2 + (qa * gy3 - qb * gz3 + q3 * gx3);
         q3' = q3 + (qa * gz3 + qb * gy3 - qc * gx3);
         recipNorm = invSqrt (q0' * q0' + q1' * q1' + q2' * q2' + q3' * q3');
         qs = (q0' * recipNorm, q1' * recipNorm, q2' * recipNorm, q3' * recipNorm)
     in (qs, m\<lparr>Quaternions := qs\<rparr>))"

section \<open>The phases of an update\<close>

text \<open>
  The two methods are straight-line code over the same blocks. Each block is named here
  by the locals it computes, with the text of the source, so that a statement can speak
  of the error term or of the rate before normalisation; the lemmas \<open>Update6D_phases\<close>
  and \<open>Update9D_phases\<close> prove that the methods are the composition of the blocks.
\<close>

type_synonym vec3 = "f64 \<times> f64 \<times> f64"

text \<open>The guard \<^verbatim>\<open>!(ax == 0.0 && ay == 0.0 && az == 0.0)\<close>.\<close>

definition nonzero_vec :: "vec3 \<Rightarrow> bool" where
  "nonzero_vec a = (case a of (ax, ay, az) \<Rightarrow>
     \<not> (feq ax (Fin 0) \<and> feq ay (Fin 0) \<and> feq az (Fin 0)))"

definition normalise3 :: "vec3 \<Rightarrow> vec3" where
  "normalise3 v = (case v of (x, y, z) \<Rightarrow>
     let recipNorm = invSqrt (x * x + y * y + z * z)
     in (x * recipNorm, y * recipNorm, z * recipNorm))"

definition halfv :: "quat \<Rightarrow> vec3" where
  "halfv q = (case q of (q0, q1, q2, q3) \<Rightarrow>
     (q1 * q3 - q0 * q2, q0 * q1 + q2 * q3, q0 * q0 - Fin 0.5 + q3 * q3))"

definition halfw :: "quat \<Rightarrow> vec3 \<Rightarrow> vec3" where
  "halfw q mg = (case q of (q0, q1, q2, q3) \<Rightarrow> case mg of (mx, my, mz) \<Rightarrow>
     let q0q0 = q0 * q0; q0q1 = q0 * q1; q0q2 = q0 * q2; q0q3 = q0 * q3;
         q1q1 = q1 * q1; q1q2 = q1 * q2; q1q3 = q1 * q3;
         q2q2 = q2 * q2; q2q3 = q2 * q3;
         q3q3 = q3 * q3;
         hx = Fin 2 * (mx * (Fin 0.5 - q2q2 - q3q3) + my * (q1q2 - q0q3)
                + mz * (q1q3 + q0q2));
         hy = Fin 2 * (mx * (q1q2 + q0q3) + my * (Fin 0.5 - q1q1 - q3q3)
                + mz * (q2q3 - q0q1));
         bx = fsqrt (hx * hx + hy * hy);
         bz = Fin 2 * (mx * (q1q3 - q0q2) + my * (q2q3 + q0q1)
                + mz * (Fin 0.5 - q1q1 - q2q2))
     in (bx * (Fin 0.5 - q2q2 - q3q3) + bz * (q1q3 - q0q2),
         bx * (q1q2 - q0q3) + bz * (q0q1 + q2q3),
         bx * (q0q2 + q1q3) + bz * (Fin 0.5 - q1q1 - q2q2)))"

definition cross :: "vec3 \<Rightarrow> vec3 \<Rightarrow> vec3" where
  "cross a v = (case a of (ax, ay, az) \<Rightarrow> case v of (vx, vy, vz) \<Rightarrow>
     (ay * vz - az * vy, az * vx - ax * vz, ax * vy - ay * vx))"

definition halfe6 :: "quat \<Rightarrow> vec3 \<Rightarrow> vec3" where
  "halfe6 q a = cross (normalise3 a) (halfv q)"

definition halfe9 :: "quat \<Rightarrow> vec3 \<Rightarrow> vec3 \<Rightarrow> vec3" where
  "halfe9 q a mg =
     (case cross (normalise3 a) (halfv q) of (ex, ey, ez) \<Rightarrow>
      case cross (normalise3 mg) (halfw q (normalise3 mg)) of (fx, fy, fz) \<Rightarrow>
        (ex + fx, ey + fy, ez + fz))"

definition feedback :: "Mahony \<Rightarrow> vec3 \<Rightarrow> vec3 \<Rightarrow> vec3 \<times> vec3" where
  "feedback m g e = (case g of (gx, gy, gz) \<Rightarrow> case e of (halfex, halfey, halfez) \<Rightarrow>
     let (gx1, gy1, gz1, ifbx1, ifby1, ifbz1) =
           (if Fin 0 < twoKi m then
              let ifbx1 = integralFBx m + twoKi m * halfex * (Fin 1 / SampleFreq m);
                  ifby1 = integralFBy m + twoKi m * halfey * (Fin 1 / SampleFreq m);
                  ifbz1 = integralFBz m + twoKi m * halfez * (Fin 1 / SampleFreq m)
              in (gx + ifbx1, gy + ifby1, gz + ifbz1, ifbx1, ifby1, ifbz1)
            else (gx, gy, gz, Fin 0, Fin 0, Fin 0))
     in ((gx1 + twoKp m * halfex, gy1 + twoKp m * halfey, gz1 + twoKp m * halfez),
         (ifbx1, ifby1, ifbz1)))"

definition scale_rate :: "f64 \<Rightarrow> vec3 \<Rightarrow> vec3" where
  "scale_rate sampleFreq g = (case g of (gx, gy, gz) \<Rightarrow>
     (gx * (Fin 0.5 * (Fin 1 / sampleFreq)),
      gy * (Fin 0.5 * (Fin 1 / sampleFreq)),
      gz * (Fin 0.5 * (Fin 1 / sampleFreq))))"

definition integrate :: "quat \<Rightarrow> vec3 \<Rightarrow> quat" where
  "integrate q g = (case q of (q0, q1, q2, q3) \<Rightarrow> case g of (gx, gy, gz) \<Rightarrow>
     (q0 + (- q1 * gx - q2 * gy - q3 * gz),
      q1 + (q0 * gx + q2 * gz - q3 * gy),
      q2 + (q0 * gy - q1 * gz + q3 * gx),
      q3 + (q0 * gz + q1 * gy - q2 * gx)))"

definition normalise4 :: "quat \<Rightarrow> quat" where
  "normalise4 q = (case q of (q0, q1, q2, q3) \<Rightarrow>
     let recipNorm = invSqrt (q0 * q0 + q1 * q1 + q2 * q2 + q3 * q3)
     in (q0 * recipNorm, q1 * recipNorm, q2 * recipNorm, q3 * recipNorm))"

definition corrected6 :: "Mahony \<Rightarrow> vec3 \<Rightarrow> vec3 \<Rightarrow> vec3" where
  "corrected6 m g a =
     (if nonzero_vec a then fst (feedback m g (halfe6 (Quaternions m) a)) else g)"

definition corrected9 :: "Mahony \<Rightarrow> vec3 \<Rightarrow> vec3 \<Rightarrow> vec3 \<Rightarrow> vec3" where
  "corrected9 m g a mg =
     (if nonzero_vec a then fst (feedback m g (halfe9 (Quaternions m) a mg)) else g)"



section \<open>Notions of the specification\<close>

text \<open>
  The quaternion product (Hamilton's) and sum, and the first-order step
  \<open>q \<leftarrow> q + q \<otimes> (0, gx, gy, gz)\<close> of the specification.
\<close>

definition qmul :: "quat \<Rightarrow> quat \<Rightarrow> quat" where
  "qmul a b = (case a of (a0, a1, a2, a3) \<Rightarrow> case b of (b0, b1, b2, b3) \<Rightarrow>
     (a0 * b0 - a1 * b1 - a2 * b2 - a3 * b3,
      a0 * b1 + a1 * b0 + a2 * b3 - a3 * b2,
      a0 * b2 - a1 * b3 + a2 * b0 + a3 * b1,
      a0 * b3 + a1 * b2 - a2 * b1 + a3 * b0))"

definition qadd :: "quat \<Rightarrow> quat \<Rightarrow> quat" where
  "qadd a b = (case a of (a0, a1, a2, a3) \<Rightarrow> case b of (b0, b1, b2, b3) \<Rightarrow>
     (a0 + b0, a1 + b1, a2 + b2, a3 + b3))"

definition derivative_step :: "quat \<Rightarrow> vec3 \<Rightarrow> quat" where
  "derivative_step q g = (case g of (gx, gy, gz) \<Rightarrow> qadd q (qmul q (Fin 0, gx, gy, gz)))"

text \<open>
  Pure gyro integration, in the words of the specification: the raw rates scaled by
  \<open>0.5 / sampleFreq\<close>, integrated by the quaternion-derivative formula, then normalised.
\<close>

definition gyro_only :: "f64 \<Rightarrow> quat \<Rightarrow> vec3 \<Rightarrow> quat" where
  "gyro_only sampleFreq q g = (case g of (gx, gy, gz) \<Rightarrow>
     normalise4 (integrate q
       (gx * (Fin 0.5 / sampleFreq), gy * (Fin 0.5 / sampleFreq), gz * (Fin 0.5 / sampleFreq))))"

text \<open>A sequence of calls on one filter, each call leaving the filter to the next.\<close>

datatype call =
  Call6D f64 f64 f64 f64 f64 f64
| Call9D f64 f64 f64 f64 f64 f64 f64 f64 f64

fun step :: "Mahony \<Rightarrow> call \<Rightarrow> Mahony" where
  "step m (Call6D gx gy gz ax ay az) = snd (Update6D m gx gy gz ax ay az)"
| "step m (Call9D gx gy gz ax ay az mx my mz) = snd (Update9D m gx gy gz ax ay az mx my mz)"

fun run :: "Mahony \<Rightarrow> call list \<Rightarrow> Mahony" where
  "run m [] = m"
| "run m (c # cs) = run (step m c) cs"

section \<open>Arithmetic of float64 values\<close>

lemma NaN_absorbs [simp]:
  "NaN + x = NaN" "x + NaN = NaN" "NaN - x = NaN" "x - NaN = NaN"
  "NaN * x = NaN" "x * NaN = NaN" "NaN / x = NaN" "x / NaN = NaN"
  by (cases x; simp add: minus_f64_def)+

lemma Fin_minus [simp]: "Fin a - Fin b = Fin (a - b)"
  by (simp add: minus_f64_def)

lemma invSqrt_NaN [simp]: "invSqrt NaN = NaN"
  by (simp add: invSqrt_def)

lemma invSqrt_zero: "invSqrt (Fin 0) = PInf"
  by (simp add: invSqrt_def signed_inf_def)

lemma Fin_times_recip: "Fin c * (Fin 1 / x) = Fin c / x"
  by (cases x) (simp_all add: signed_inf_def)

lemma feq_zero [simp]: "feq x (Fin 0) \<longleftrightarrow> x = Fin 0"
  by (cases x) simp_all

section \<open>The methods as compositions of their phases\<close>

lemma Update_tail:
  "(let gx3 = gx2 * (Fin 0.5 * (Fin 1 / sampleFreq));
        gy3 = gy2 * (Fin 0.5 * (Fin 1 / sampleFreq));
        gz3 = gz2 * (Fin 0.5 * (Fin 1 / sampleFreq));
        qa = q0; qb = q1; qc = q2;
        q0' = q0 + (- qb * gx3 - qc * gy3 - q3 * gz3);
        q1' = q1 + (qa * gx3 + qc * gz3 - q3 * gy3);
        q2' = q2 + (qa * gy3 - qb * gz3 + q3 * gx3);
        q3' = q3 + (qa * gz3 + qb * gy3 - qc * gx3);
        recipNorm = invSqrt (q0' * q0' + q1' * q1' + q2' * q2' + q3' * q3');
        qs = (q0' * recipNorm, q1' * recipNorm, q2' * recipNorm, q3' * recipNorm)
    in (qs, m\<lparr>Quaternions := qs\<rparr>)) =
   (let qs = normalise4 (integrate (q0, q1, q2, q3) (scale_rate sampleFreq (gx2, gy2, gz2)))
    in (qs, m\<lparr>Quaternions := qs\<rparr>))"
  by (simp add: scale_rate_def integrate_def normalise4_def Let_def)

lemma Update6D_phases:
  "Update6D m gx gy gz ax ay az =
     (let qs = normalise4 (integrate (Quaternions m)
                 (scale_rate (SampleFreq m) (corrected6 m (gx, gy, gz) (ax, ay, az))))
      in (qs, m\<lparr>Quaternions := qs\<rparr>))"
  unfolding Update6D_def Update_tail
  apply (cases "Quaternions m")
  apply (simp only: prod.case)
  apply (simp add: corrected6_def nonzero_vec_def feedback_def halfe6_def
      cross_def normalise3_def halfv_def Let_def split: prod.split)
  done

lemma Update9D_phases:
  "Update9D m gx gy gz ax ay az mx my mz =
     (let qs = normalise4 (integrate (Quaternions m)
                 (scale_rate (SampleFreq m)
                   (corrected9 m (gx, gy, gz) (ax, ay, az) (mx, my, mz))))
      in (qs, m\<lparr>Quaternions := qs\<rparr>))"
  unfolding Update9D_def Update_tail
  apply (cases "Quaternions m")
  apply (simp only: prod.case)
  apply (simp add: corrected9_def nonzero_vec_def feedback_def halfe9_def
      cross_def normalise3_def halfv_def halfw_def Let_def split: prod.split)
  done

lemma zero_not_nonzero [simp]: "\<not> nonzero_vec (Fin 0, Fin 0, Fin 0)"
  by (simp add: nonzero_vec_def)

lemma Update6D_frame:
  "snd (Update6D m gx gy gz ax ay az) = m\<lparr>Quaternions := fst (Update6D m gx gy gz ax ay az)\<rparr>"
  by (simp add: Update6D_phases Let_def)

lemma Update9D_frame:
  "snd (Update9D m gx gy gz ax ay az mx my mz) =
     m\<lparr>Quaternions := fst (Update9D m gx gy gz ax ay az mx my mz)\<rparr>"
  by (simp add: Update9D_phases Let_def)

lemma frame_trans:
  "s = m\<lparr>Quaternions := a\<rparr> \<Longrightarrow> r = s\<lparr>Quaternions := b\<rparr>
   \<Longrightarrow> r = m\<lparr>Quaternions := Quaternions r\<rparr>"
  by simp

lemma step_frame: "step m c = m\<lparr>Quaternions := Quaternions (step m c)\<rparr>"
proof (cases c)
  case (Call6D gx gy gz ax ay az)
  then show ?thesis by (simp add: Update6D_frame)
next
  case (Call9D gx gy gz ax ay az mx my mz)
  then show ?thesis by (simp add: Update9D_frame)
qed

lemma run_frame: "run m cs = m\<lparr>Quaternions := Quaternions (run m cs)\<rparr>"
proof (induction cs arbitrary: m)
  case Nil
  show ?case by simp
next
  case (Cons c cs)
  have "run (step m c) cs = (step m c)\<lparr>Quaternions := Quaternions (run (step m c) cs)\<rparr>"
    by (rule Cons.IH)
  with step_frame [of m c] have "run (step m c) cs =
      m\<lparr>Quaternions := Quaternions (run (step m c) cs)\<rparr>"
    by (rule frame_trans)
  then show ?case by simp
qed

section \<open>Non-finite values through an update\<close>

lemma normalise3_zero: "normalise3 (Fin 0, Fin 0, Fin 0) = (NaN, NaN, NaN)"
  by (simp add: normalise3_def invSqrt_zero signed_inf_def)

lemma halfw_NaN: "halfw q (NaN, NaN, NaN) = (NaN, NaN, NaN)"
  by (cases q) (simp add: halfw_def Let_def)

lemma cross_NaN: "cross (NaN, NaN, NaN) v = (NaN, NaN, NaN)"
  by (cases v) (simp add: cross_def)

lemma halfe9_zero_mag: "halfe9 q a (Fin 0, Fin 0, Fin 0) = (NaN, NaN, NaN)"
  by (cases "cross (normalise3 a) (halfv q)")
     (simp add: halfe9_def normalise3_zero halfw_NaN cross_NaN)

lemma feedback_NaN: "fst (feedback m g (NaN, NaN, NaN)) = (NaN, NaN, NaN)"
  by (simp add: feedback_def split: prod.split)

lemma tail_NaN: "normalise4 (integrate q (scale_rate sf (NaN, NaN, NaN))) = (NaN, NaN, NaN, NaN)"
  by (simp add: normalise4_def integrate_def scale_rate_def split: prod.split)

section \<open>The integration step and the quaternion product\<close>

lemma integrate_is_derivative_step:
  "integrate (Fin q0, Fin q1, Fin q2, Fin q3) (Fin x, Fin y, Fin z) =
   derivative_step (Fin q0, Fin q1, Fin q2, Fin q3) (Fin x, Fin y, Fin z)"
  by (simp add: integrate_def derivative_step_def qadd_def qmul_def)

section \<open>The claims\<close>

text \<open>
  Claim C1: with integral gain above zero, every call of \<open>Update6D\<close> or \<open>Update9D\<close> with a
  non-zero accelerometer reading leaves in the filter the accumulator of before plus
  \<open>twoKi \<cdot> half_e / sampleFreq\<close>.

  The code does not do this. Both methods add to local copies of the three fields and
  store the four quaternion components only. The filter \<^verbatim>\<open>NewMahony(0.5, 0.5, 1)\<close> has
  \<open>twoKi = 1\<close> and a zero accumulator; in the call \<^verbatim>\<open>Update6D(0, 0, 0, 1, 0, 0)\<close> the
  error term is \<open>(0, -0.5, 0)\<close> and the local accumulator becomes \<open>(0, -0.5, 0)\<close>, the
  value of the claim, while the field \<^verbatim>\<open>integralFBy\<close> is \<open>0\<close> after the call.
\<close>
theorem accumulator_not_stored:
  "nonzero_vec (Fin 1, Fin 0, Fin 0)
   \<and> Fin 0 < twoKi (NewMahony (Fin 0.5) (Fin 0.5) (Fin 1))
   \<and> integralFBy (NewMahony (Fin 0.5) (Fin 0.5) (Fin 1)) = Fin 0
   \<and> halfe6 (Quaternions (NewMahony (Fin 0.5) (Fin 0.5) (Fin 1))) (Fin 1, Fin 0, Fin 0) =
       (Fin 0, Fin (- 0.5), Fin 0)
   \<and> snd (feedback (NewMahony (Fin 0.5) (Fin 0.5) (Fin 1)) (Fin 0, Fin 0, Fin 0)
         (Fin 0, Fin (- 0.5), Fin 0)) = (Fin 0, Fin (- 0.5), Fin 0)
   \<and> integralFBy (snd (Update6D (NewMahony (Fin 0.5) (Fin 0.5) (Fin 1))
         (Fin 0) (Fin 0) (Fin 0) (Fin 1) (Fin 0) (Fin 0))) = Fin 0"
  by (simp add: Update6D_frame NewMahony_def nonzero_vec_def halfe6_def normalise3_def
      halfv_def cross_def invSqrt_def feedback_def Let_def)

text \<open>
  Claim C3: with the accelerometer reading \<open>(0, 0, 0)\<close>, for every filter and all gyro
  and magnetometer readings, \<open>Update6D\<close> and \<open>Update9D\<close> return and store the pure gyro
  integration: the raw rates scaled by \<open>0.5 / sampleFreq\<close>, integrated by the
  quaternion-derivative formula and normalised. Neither the gains, the accumulator nor
  the magnetometer reading enter the result.
\<close>
theorem degenerate_accel_is_gyro_only:
  "Update6D m gx gy gz (Fin 0) (Fin 0) (Fin 0) =
     (let qs = gyro_only (SampleFreq m) (Quaternions m) (gx, gy, gz)
      in (qs, m\<lparr>Quaternions := qs\<rparr>))
   \<and> Update9D m gx gy gz (Fin 0) (Fin 0) (Fin 0) mx my mz =
     (let qs = gyro_only (SampleFreq m) (Quaternions m) (gx, gy, gz)
      in (qs, m\<lparr>Quaternions := qs\<rparr>))"
  by (simp add: Update6D_phases Update9D_phases corrected6_def corrected9_def
      gyro_only_def scale_rate_def Fin_times_recip)

text \<open>
  Claim C4: in a filter constructed with integral gain \<open>0\<close>, after any sequence of calls
  of \<open>Update6D\<close> and \<open>Update9D\<close> with any readings, the three accumulator fields are
  \<open>0\<close>. The gain \<open>twoKi\<close> is still \<open>0\<close> then, and the accumulator the feedback block
  computes in the next call is \<open>(0, 0, 0)\<close> whatever the rates and the error.
\<close>
theorem windup_prevention:
  "integralFBx (run (NewMahony kp (Fin 0) sampleFreq) cs) = Fin 0
   \<and> integralFBy (run (NewMahony kp (Fin 0) sampleFreq) cs) = Fin 0
   \<and> integralFBz (run (NewMahony kp (Fin 0) sampleFreq) cs) = Fin 0
   \<and> twoKi (run (NewMahony kp (Fin 0) sampleFreq) cs) = Fin 0
   \<and> snd (feedback (run (NewMahony kp (Fin 0) sampleFreq) cs) g e) = (Fin 0, Fin 0, Fin 0)"
proof -
  have "run (NewMahony kp (Fin 0) sampleFreq) cs =
      (NewMahony kp (Fin 0) sampleFreq)
        \<lparr>Quaternions := Quaternions (run (NewMahony kp (Fin 0) sampleFreq) cs)\<rparr>"
    by (rule run_frame)
  then have "\<exists>qs. run (NewMahony kp (Fin 0) sampleFreq) cs =
      (NewMahony kp (Fin 0) sampleFreq)\<lparr>Quaternions := qs\<rparr>"
    by (rule exI)
  then show ?thesis
    by (cases g; cases e) (auto simp add: NewMahony_def feedback_def)
qed

text \<open>
  Claim C6: both methods scale the corrected rate by \<open>0.5 / sampleFreq\<close>, add to each
  quaternion component the expression \<open>q0 += -q1\<cdot>gx - q2\<cdot>gy - q3\<cdot>gz\<close> and its three
  companions, over the quaternion of before the call, and normalise after that. On
  finite values this sum is \<open>q + q \<otimes> (0, gx, gy, gz)\<close> for the quaternion product.
\<close>
theorem kinematic_integration:
  "Update6D m gx gy gz ax ay az =
     (let qs = normalise4 (integrate (Quaternions m)
                 (scale_rate (SampleFreq m) (corrected6 m (gx, gy, gz) (ax, ay, az))))
      in (qs, m\<lparr>Quaternions := qs\<rparr>))
   \<and> Update9D m gx gy gz ax ay az mx my mz =
     (let qs = normalise4 (integrate (Quaternions m)
                 (scale_rate (SampleFreq m)
                   (corrected9 m (gx, gy, gz) (ax, ay, az) (mx, my, mz))))
      in (qs, m\<lparr>Quaternions := qs\<rparr>))
   \<and> scale_rate sf (x, y, z) = (x * (Fin 0.5 / sf), y * (Fin 0.5 / sf), z * (Fin 0.5 / sf))
   \<and> integrate (q0, q1, q2, q3) (x, y, z) =
       (q0 + (- q1 * x - q2 * y - q3 * z),
        q1 + (q0 * x + q2 * z - q3 * y),
        q2 + (q0 * y - q1 * z + q3 * x),
        q3 + (q0 * z + q1 * y - q2 * x))
   \<and> integrate (Fin r0, Fin r1, Fin r2, Fin r3) (Fin u, Fin v, Fin w) =
       derivative_step (Fin r0, Fin r1, Fin r2, Fin r3) (Fin u, Fin v, Fin w)"
  by (simp add: Update6D_phases Update9D_phases integrate_is_derivative_step
      scale_rate_def Fin_times_recip)
     (simp add: integrate_def)

text \<open>
  Claim C7: \<open>invSqrt\<close> is the quotient of \<open>1\<close> by the square root; at a positive \<open>x\<close> it
  returns \<open>1 / sqrt x\<close> (exactly, in arithmetic without rounding), and at \<open>0\<close> it returns
  \<open>+\<infinity>\<close>. It reads and writes nothing but its argument and result.
\<close>
theorem invSqrt_exact:
  "(0 < x \<longrightarrow> invSqrt (Fin x) = Fin 1 / fsqrt (Fin x) \<and> fsqrt (Fin x) = Fin (sqrt x)
      \<and> invSqrt (Fin x) = Fin (1 / sqrt x))
   \<and> invSqrt (Fin 0) = PInf"
  by (simp add: invSqrt_def signed_inf_def)

text \<open>The theorem at \<open>x = 4\<close>.\<close>
theorem invSqrt_exact_witness:
  "(0::real) < 4 \<and> invSqrt (Fin 4) = Fin (1 / 2) \<and> invSqrt (Fin 0) = PInf"
  using invSqrt_exact [of 4] by simp

text \<open>
  Claim C8: in \<open>Update9D\<close> the test on the accelerometer is the only guard. With a zero
  accelerometer reading the magnetometer reading has no effect; with a non-zero one and
  the magnetometer reading \<open>(0, 0, 0)\<close>, normalising the magnetometer multiplies \<open>0\<close> by
  \<open>1 / sqrt 0 = +\<infinity>\<close>, and every component of the returned and stored quaternion is NaN.
\<close>
theorem zero_magnetometer_unguarded:
  "(\<forall>mx' my' mz'. Update9D m gx gy gz (Fin 0) (Fin 0) (Fin 0) mx my mz =
      Update9D m gx gy gz (Fin 0) (Fin 0) (Fin 0) mx' my' mz')
   \<and> (nonzero_vec (ax, ay, az) \<longrightarrow>
        normalise3 (Fin 0, Fin 0, Fin 0) = (NaN, NaN, NaN)
        \<and> Update9D m gx gy gz ax ay az (Fin 0) (Fin 0) (Fin 0) =
            ((NaN, NaN, NaN, NaN), m\<lparr>Quaternions := (NaN, NaN, NaN, NaN)\<rparr>))"
  by (simp add: Update9D_phases corrected9_def halfe9_zero_mag feedback_NaN tail_NaN
      normalise3_zero Let_def)

text \<open>The theorem at \<^verbatim>\<open>NewMahony(0.5, 0.5, 1)\<close> and gravity along z.\<close>

theorem zero_magnetometer_unguarded_witness:
  "nonzero_vec (Fin 0, Fin 0, Fin 1)
   \<and> fst (Update9D (NewMahony (Fin 0.5) (Fin 0.5) (Fin 1))
         (Fin 0) (Fin 0) (Fin 0) (Fin 0) (Fin 0) (Fin 1) (Fin 0) (Fin 0) (Fin 0)) =
       (NaN, NaN, NaN, NaN)"
  using zero_magnetometer_unguarded [where m = "NewMahony (Fin 0.5) (Fin 0.5) (Fin 1)"
      and gx = "Fin 0" and gy = "Fin 0" and gz = "Fin 0"
      and ax = "Fin 0" and ay = "Fin 0" and az = "Fin 1"]
  by (simp add: nonzero_vec_def)

text \<open>
  Claim C9: a call of \<open>Update6D\<close> or \<open>Update9D\<close> leaves \<open>twoKp\<close>, \<open>twoKi\<close> and
  \<open>SampleFreq\<close> as they were, for every filter and all readings; the filter after the
  call is the filter of before with the returned quaternion stored.
\<close>
theorem configuration_unchanged:
  "twoKp (snd (Update6D m gx gy gz ax ay az)) = twoKp m
   \<and> twoKi (snd (Update6D m gx gy gz ax ay az)) = twoKi m
   \<and> SampleFreq (snd (Update6D m gx gy gz ax ay az)) = SampleFreq m
   \<and> twoKp (snd (Update9D m gx gy gz ax ay az mx my mz)) = twoKp m
   \<and> twoKi (snd (Update9D m gx gy gz ax ay az mx my mz)) = twoKi m
   \<and> SampleFreq (snd (Update9D m gx gy gz ax ay az mx my mz)) = SampleFreq m
   \<and> snd (Update6D m gx gy gz ax ay az) =
       m\<lparr>Quaternions := fst (Update6D m gx gy gz ax ay az)\<rparr>
   \<and> snd (Update9D m gx gy gz ax ay az mx my mz) =
       m\<lparr>Quaternions := fst (Update9D m gx gy gz ax ay az mx my mz)\<rparr>"
  by (simp add: Update6D_phases Update9D_phases Let_def)

text \<open>
  Claim C10: with the accelerometer reading \<open>(0, 0, 0)\<close>, \<open>Update9D\<close> returns the array
  and leaves the filter that \<open>Update6D\<close> does on the same filter and gyro rates,
  whatever the magnetometer reading.
\<close>
theorem degenerate_accel_9D_is_6D:
  "Update9D m gx gy gz (Fin 0) (Fin 0) (Fin 0) mx my mz =
   Update6D m gx gy gz (Fin 0) (Fin 0) (Fin 0)"
  by (simp add: Update6D_phases Update9D_phases corrected6_def corrected9_def)

end
